theory Spec2Isabelle
  imports Main "HOL-Library.AList"
begin

section \<open>Data model\<close>

subsection \<open>Campaign schema (src/types/campaign.ts)\<close>

text \<open>
  \<^verbatim>\<open>QuestionType\<close> is a union of string literals; at run time the field is the string
  that came with the campaign, and the form compares it with \<^verbatim>\<open>===\<close> against literals.
  It is kept as a string, so that a value outside the four rendered literals is an input
  like any other.
\<close>

record scale =
  min_s :: int
  max_s :: int
  minLabel :: "string option"
  maxLabel :: "string option"

record campaign_question =
  id_q :: string
  type_q :: string
  text_q :: string
  required :: bool
  options :: "string list option"
  scale_q :: "scale option"

text \<open>
  The interface declares \<^verbatim>\<open>settings: { allowVoice; allowText }\<close>; the form also reads
  \<^verbatim>\<open>settings.requireOrderId\<close>. A property that is missing reads as \<^verbatim>\<open>undefined\<close>,
  which is falsy, so the field is a boolean here and \<open>False\<close> stands for a missing one.
\<close>

record campaign_settings =
  allowVoice :: bool
  allowText :: bool
  requireOrderId :: bool

record campaign =
  id_c :: string
  name_c :: string
  company_id :: string
  active :: bool
  start_date :: "string option"
  end_date :: "string option"
  include_nps :: bool
  nps_question :: "string option"
  include_additional_questions :: bool
  questions :: "campaign_question list"
  settings :: campaign_settings
  created_at :: string

subsection \<open>Values held by the form\<close>

text \<open>
  \<^verbatim>\<open>questionResponses\<close> is a \<^verbatim>\<open>Record<string, any>\<close>. The values are JavaScript values;
  the form only tests them for truthiness. Numbers are integers here (the inputs of the
  form produce scores and option indices, never \<^verbatim>\<open>NaN\<close>).
\<close>

datatype js_value = JUndefined | JNull | JBool bool | JNumber int | JString string

fun truthy :: "js_value \<Rightarrow> bool" where
  "truthy JUndefined = False"
| "truthy JNull = False"
| "truthy (JBool b) = b"
| "truthy (JNumber n) = (n \<noteq> 0)"
| "truthy (JString s) = (s \<noteq> [])"

datatype blob = Blob "nat list"

datatype feedback_type = Voice | Text

text \<open>
  The object is an association list in insertion order. \<^verbatim>\<open>{...prev, [questionId]: value}\<close>
  keeps the place of a key that is already there and appends a new one, which is
  \<^const>\<open>AList.update\<close>. Reading a key that is absent gives \<^verbatim>\<open>undefined\<close>. (Question ids that
  name a property of \<^verbatim>\<open>Object.prototype\<close> are outside this model.)
\<close>

type_synonym responses = "(string \<times> js_value) list"

definition response_of :: "responses \<Rightarrow> string \<Rightarrow> js_value" where
  "response_of rs k = (case map_of rs k of None \<Rightarrow> JUndefined | Some v \<Rightarrow> v)"

record props =
  orderId :: string
  companyId :: string
  campaignId :: "string option"
  companyName :: "string option"
  campaignData :: "campaign option"

text \<open>The \<^verbatim>\<open>useState\<close> cells of \<^verbatim>\<open>FeedbackForm\<close>, in the order of their declaration.\<close>

record form_state =
  npsScore :: "int option"
  audioBlob :: "blob option"
  textFeedback :: string
  feedbackType :: feedback_type
  questionResponses :: responses
  isSubmitting :: bool
  submitted :: bool
  error :: "string option"
  consent :: bool
  showOrderInput :: bool
  localOrderId :: string

text \<open>
  Optional chaining on the campaign: \<^verbatim>\<open>campaignData?.f\<close> is \<^verbatim>\<open>undefined\<close> (falsy) when there
  is no campaign.
\<close>

definition campaign_flag :: "(campaign \<Rightarrow> bool) \<Rightarrow> props \<Rightarrow> bool" where
  "campaign_flag f p = (case campaignData p of None \<Rightarrow> False | Some c \<Rightarrow> f c)"

text \<open>Initial values of the state cells (lines 25-38 of the form).\<close>

definition mount :: "props \<Rightarrow> form_state" where
  "mount p =
     \<lparr> npsScore = None,
       audioBlob = None,
       textFeedback = [],
       feedbackType = (if campaign_flag (\<lambda>c. allowVoice (settings c)) p then Voice else Text),
       questionResponses = [],
       isSubmitting = False,
       submitted = False,
       error = None,
       consent = False,
       showOrderInput = (orderId p = []),
       localOrderId = orderId p \<rparr>"

subsection \<open>The voice/text question component (VoiceTextQuestion.tsx)\<close>

text \<open>
  Its \<^verbatim>\<open>question\<close> prop is typed \<^verbatim>\<open>any\<close>; the component reads \<^verbatim>\<open>allowVoice\<close> and
  \<^verbatim>\<open>allowText\<close> for their truthiness only.
\<close>

record vt_question =
  vt_allowVoice :: bool
  vt_allowText :: bool

record vt_state =
  responseType :: feedback_type
  vt_audioBlob :: "blob option"
  isRecording :: bool
  isPlaying :: bool

definition vt_mount :: "vt_question \<Rightarrow> vt_state" where
  "vt_mount q =
     \<lparr> responseType = (if vt_allowVoice q then Voice else Text),
       vt_audioBlob = None,
       isRecording = False,
       isPlaying = False \<rparr>"

text \<open>
  The two tab buttons (lines 83-116): shown when both channels are allowed, each calling
  \<^verbatim>\<open>setResponseType\<close> and nothing else.
\<close>

definition showTabs :: "vt_question \<Rightarrow> bool" where
  "showTabs q \<longleftrightarrow> vt_allowVoice q \<and> vt_allowText q"

definition vt_tab_click :: "vt_question \<Rightarrow> feedback_type \<Rightarrow> vt_state \<Rightarrow> vt_state" where
  "vt_tab_click q t s =
     (if showTabs q \<and> (case t of Voice \<Rightarrow> vt_allowVoice q | Text \<Rightarrow> vt_allowText q)
      then s\<lparr> responseType := t \<rparr> else s)"

section \<open>The form's handlers\<close>

subsection \<open>Calls made by a handler\<close>

text \<open>
  A handler reads the state cells of the render it was created in and makes a sequence of
  calls: state setters, \<^verbatim>\<open>stopRecording\<close> on the recorder, \<^verbatim>\<open>fetch\<close>, \<^verbatim>\<open>console.error\<close>.
  The handler is modelled as the list of calls it makes, in order; \<open>perform\<close> gives the
  effect of one call on the state cells. \<^verbatim>\<open>setQuestionResponses\<close> is the only setter called
  with an updater function.
\<close>

datatype part = BlobPart blob | TextPart string | JsonPart responses

type_synonym form_data = "(string \<times> part) list"

datatype action =
    SetNpsScore "int option"
  | SetAudioBlob "blob option"
  | SetTextFeedback string
  | SetFeedbackType feedback_type
  | SetQuestionResponses "responses \<Rightarrow> responses"
  | SetIsSubmitting bool
  | SetSubmitted bool
  | SetError "string option"
  | SetConsent bool
  | SetLocalOrderId string
  | StopRecording
  | Fetch form_data
  | ConsoleError

fun perform :: "action \<Rightarrow> form_state \<Rightarrow> form_state" where
  "perform (SetNpsScore v) s = s\<lparr>npsScore := v\<rparr>"
| "perform (SetAudioBlob v) s = s\<lparr>audioBlob := v\<rparr>"
| "perform (SetTextFeedback v) s = s\<lparr>textFeedback := v\<rparr>"
| "perform (SetFeedbackType v) s = s\<lparr>feedbackType := v\<rparr>"
| "perform (SetQuestionResponses f) s = s\<lparr>questionResponses := f (questionResponses s)\<rparr>"
| "perform (SetIsSubmitting v) s = s\<lparr>isSubmitting := v\<rparr>"
| "perform (SetSubmitted v) s = s\<lparr>submitted := v\<rparr>"
| "perform (SetError v) s = s\<lparr>error := v\<rparr>"
| "perform (SetConsent v) s = s\<lparr>consent := v\<rparr>"
| "perform (SetLocalOrderId v) s = s\<lparr>localOrderId := v\<rparr>"
| "perform StopRecording s = s"
| "perform (Fetch fd) s = s"
| "perform ConsoleError s = s"

fun run :: "action list \<Rightarrow> form_state \<Rightarrow> form_state" where
  "run [] s = s"
| "run (a # as) s = run as (perform a s)"

text \<open>The network calls and the validation reasons among the calls of a handler.\<close>

fun fetches :: "action list \<Rightarrow> form_data list" where
  "fetches [] = []"
| "fetches (Fetch fd # as) = fd # fetches as"
| "fetches (a # as) = fetches as"

fun reasons :: "action list \<Rightarrow> string list" where
  "reasons [] = []"
| "reasons (SetError (Some m) # as) = m # reasons as"
| "reasons (a # as) = reasons as"

subsection \<open>handleQuestionResponse\<close>

definition handleQuestionResponse :: "string \<Rightarrow> js_value \<Rightarrow> action list" where
  "handleQuestionResponse questionId v = [SetQuestionResponses (AList.update questionId v)]"

subsection \<open>What is rendered\<close>

text \<open>
  The conditions under which the form renders each input (lines 120-284). The recorder's
  ref is attached while the recorder is rendered.
\<close>

definition rendersOrderInput :: "props \<Rightarrow> form_state \<Rightarrow> bool" where
  "rendersOrderInput p s \<longleftrightarrow>
     showOrderInput s \<and> campaign_flag (\<lambda>c. requireOrderId (settings c)) p"

definition rendersNps :: "props \<Rightarrow> bool" where
  "rendersNps p \<longleftrightarrow> campaign_flag include_nps p"

definition rendersQuestions :: "props \<Rightarrow> bool" where
  "rendersQuestions p \<longleftrightarrow>
     campaign_flag (\<lambda>c. include_additional_questions c \<and> questions c \<noteq> []) p"

datatype question_input =
    TextQuestion campaign_question js_value
  | RatingQuestion campaign_question js_value
  | MultipleChoiceQuestion campaign_question js_value
  | YesNoQuestion campaign_question js_value

definition question_inputs :: "responses \<Rightarrow> campaign_question \<Rightarrow> question_input list" where
  "question_inputs rs question =
     (if type_q question = ''text''
      then [TextQuestion question (response_of rs (id_q question))] else [])
     @ (if type_q question = ''rating''
        then [RatingQuestion question (response_of rs (id_q question))] else [])
     @ (if type_q question = ''multiple_choice''
        then [MultipleChoiceQuestion question (response_of rs (id_q question))] else [])
     @ (if type_q question = ''yes_no''
        then [YesNoQuestion question (response_of rs (id_q question))] else [])"

text \<open>One block per question: its label, the required mark, and its inputs.\<close>

definition question_block ::
  "responses \<Rightarrow> campaign_question \<Rightarrow> string \<times> bool \<times> question_input list" where
  "question_block rs question = (text_q question, required question, question_inputs rs question)"

definition render_questions ::
  "props \<Rightarrow> form_state \<Rightarrow> (string \<times> bool \<times> question_input list) list" where
  "render_questions p s =
     (case campaignData p of
        None \<Rightarrow> []
      | Some c \<Rightarrow>
          if include_additional_questions c \<and> questions c \<noteq> []
          then map (question_block (questionResponses s)) (questions c)
          else [])"

definition rendersTabs :: "props \<Rightarrow> bool" where
  "rendersTabs p \<longleftrightarrow>
     campaign_flag (\<lambda>c. allowVoice (settings c)) p \<and> campaign_flag (\<lambda>c. allowText (settings c)) p"

definition rendersAudioRecorder :: "props \<Rightarrow> form_state \<Rightarrow> bool" where
  "rendersAudioRecorder p s \<longleftrightarrow>
     feedbackType s = Voice \<and> campaign_flag (\<lambda>c. allowVoice (settings c)) p"

definition rendersTextarea :: "props \<Rightarrow> form_state \<Rightarrow> bool" where
  "rendersTextarea p s \<longleftrightarrow>
     \<not> rendersAudioRecorder p s \<and> campaign_flag (\<lambda>c. allowText (settings c)) p"

subsection \<open>handleSubmit\<close>

text \<open>\<^verbatim>\<open>Number.prototype.toString\<close> on an integer: decimal digits, with a sign.\<close>

fun digits :: "nat \<Rightarrow> string" where
  "digits n =
     (if n < 10 then [char_of (48 + n)] else digits (n div 10) @ [char_of (48 + n mod 10)])"

declare digits.simps [simp del]

definition toString :: "int \<Rightarrow> string" where
  "toString n = (if n < 0 then CHR ''-'' # digits (nat (- n)) else digits (nat n))"

text \<open>\<^verbatim>\<open>npsScore\<close> is a number or \<^verbatim>\<open>null\<close>; \<^verbatim>\<open>!npsScore\<close> tests its truthiness.\<close>

definition nps_value :: "int option \<Rightarrow> js_value" where
  "nps_value v = (case v of None \<Rightarrow> JNull | Some n \<Rightarrow> JNumber n)"

definition missingRequired :: "campaign \<Rightarrow> responses \<Rightarrow> bool" where
  "missingRequired c rs \<longleftrightarrow>
     list_ex (\<lambda>q. required q \<and> \<not> truthy (response_of rs (id_q q))) (questions c)"

text \<open>The multi-part payload (lines 83-100), as the list of appended fields.\<close>

definition formData :: "props \<Rightarrow> form_state \<Rightarrow> form_data" where
  "formData p s =
     (case (feedbackType s, audioBlob s) of
        (Voice, Some b) \<Rightarrow> [(''audio'', BlobPart b)]
      | _ \<Rightarrow>
          if feedbackType s = Text \<and> textFeedback s \<noteq> []
          then [(''textFeedback'', TextPart (textFeedback s))] else [])
     @ [(''orderId'', TextPart (localOrderId s)), (''companyId'', TextPart (companyId p))]
     @ (case campaignId p of
          None \<Rightarrow> []
        | Some c \<Rightarrow> if c \<noteq> [] then [(''campaignId'', TextPart c)] else [])
     @ (case npsScore s of
          None \<Rightarrow> []
        | Some n \<Rightarrow>
            if campaign_flag include_nps p \<and> truthy (JNumber n)
            then [(''npsScore'', TextPart (toString n))] else [])
     @ (if length (map fst (questionResponses s)) > 0
        then [(''questionResponses'', JsonPart (questionResponses s))] else [])"

text \<open>
  The conditions of the four checks of \<^verbatim>\<open>handleSubmit\<close> (lines 48, 53, 58 and 64-69), each
  as the source writes it.
\<close>

definition consentMissing :: "form_state \<Rightarrow> bool" where
  "consentMissing s \<longleftrightarrow> \<not> consent s"

definition npsMissing :: "props \<Rightarrow> form_state \<Rightarrow> bool" where
  "npsMissing p s \<longleftrightarrow> campaign_flag include_nps p \<and> \<not> truthy (nps_value (npsScore s))"

definition orderIdMissing :: "props \<Rightarrow> form_state \<Rightarrow> bool" where
  "orderIdMissing p s \<longleftrightarrow>
     localOrderId s = [] \<and> showOrderInput s
     \<and> campaign_flag (\<lambda>c. requireOrderId (settings c)) p"

definition questionsMissing :: "props \<Rightarrow> form_state \<Rightarrow> bool" where
  "questionsMissing p s \<longleftrightarrow>
     campaign_flag
       (\<lambda>c. include_additional_questions c \<and> missingRequired c (questionResponses s)) p"

text \<open>
  The part of \<^verbatim>\<open>handleSubmit\<close> that runs before \<^verbatim>\<open>await fetch\<close> (lines 47-105): the four
  checks, each with its early return, then the calls up to the request. The recorder's
  \<^verbatim>\<open>stopRecording\<close> is taken to return normally.
\<close>

definition handleSubmit :: "props \<Rightarrow> form_state \<Rightarrow> action list" where
  "handleSubmit p s =
     (if consentMissing s
      then [SetError (Some ''Please accept the consent notice to submit feedback'')]
      else if npsMissing p s
      then [SetError (Some ''Please provide an NPS score'')]
      else if orderIdMissing p s
      then [SetError (Some ''Please provide an order ID'')]
      else if questionsMissing p s
      then [SetError (Some ''Please answer all required questions'')]
      else [SetIsSubmitting True, SetError None]
           @ (if rendersAudioRecorder p s then [StopRecording] else [])
           @ [Fetch (formData p s)])"

text \<open>
  The rest of \<^verbatim>\<open>handleSubmit\<close>, run when the request settles (lines 107-117): the response
  is ok, is not ok, or the request was rejected in transport.
\<close>

datatype response = Ok | NotOk | Rejected

definition handleSubmit_settled :: "response \<Rightarrow> action list" where
  "handleSubmit_settled r =
     (case r of
        Ok \<Rightarrow> [SetSubmitted True]
      | _ \<Rightarrow> [SetError (Some ''Failed to submit feedback. Please try again.''), ConsoleError])
     @ [SetIsSubmitting False]"

subsection \<open>Events of the rendered form\<close>

text \<open>
  Each event of the page runs one handler to its end (or to its \<^verbatim>\<open>await\<close>). An input
  that is not rendered raises no event; the submit button is \<^verbatim>\<open>disabled={isSubmitting}\<close>;
  once \<^verbatim>\<open>submitted\<close> holds the form is replaced by the thank-you text. The recorder's
  completion callback may arrive at any time. \<open>handle\<close> is the handler of one event, run
  against the state cells of the render it belongs to.
\<close>

datatype ui_event =
    OrderIdChange string
  | NpsClick nat
  | QuestionChange string js_value
  | VoiceTabClick
  | TextTabClick
  | RecordingComplete "blob option"
  | TextFeedbackChange string
  | ConsentChange bool
  | SubmitClick
  | FetchSettled response

definition has_input :: "props \<Rightarrow> form_state \<Rightarrow> string \<Rightarrow> bool" where
  "has_input p s k \<longleftrightarrow>
     list_ex (\<lambda>b. list_ex (\<lambda>i. case i of
                 TextQuestion q v \<Rightarrow> id_q q = k
               | RatingQuestion q v \<Rightarrow> id_q q = k
               | MultipleChoiceQuestion q v \<Rightarrow> id_q q = k
               | YesNoQuestion q v \<Rightarrow> id_q q = k) (snd (snd b)))
       (render_questions p s)"

fun handle :: "props \<Rightarrow> ui_event \<Rightarrow> form_state \<Rightarrow> action list" where
  "handle p (OrderIdChange v) s =
     (if \<not> submitted s \<and> rendersOrderInput p s then [SetLocalOrderId v] else [])"
| "handle p (NpsClick i) s =
     (if \<not> submitted s \<and> rendersNps p \<and> i < 10 then [SetNpsScore (Some (int i + 1))] else [])"
| "handle p (QuestionChange k v) s =
     (if \<not> submitted s \<and> has_input p s k then handleQuestionResponse k v else [])"
| "handle p VoiceTabClick s =
     (if \<not> submitted s \<and> rendersTabs p then [SetFeedbackType Voice] else [])"
| "handle p TextTabClick s =
     (if \<not> submitted s \<and> rendersTabs p then [SetFeedbackType Text] else [])"
| "handle p (RecordingComplete b) s = [SetAudioBlob b]"
| "handle p (TextFeedbackChange v) s =
     (if \<not> submitted s \<and> rendersTextarea p s then [SetTextFeedback v] else [])"
| "handle p (ConsentChange b) s = (if \<not> submitted s then [SetConsent b] else [])"
| "handle p SubmitClick s =
     (if \<not> submitted s \<and> \<not> isSubmitting s then handleSubmit p s else [])"
| "handle p (FetchSettled r) s = handleSubmit_settled r"


text \<open>
  The page when every event is followed by a render before the next one arrives: the
  state cells, every call made so far, and the number of requests that have not settled
  yet. A settlement with no request in flight does not happen.
\<close>

record page =
  cells :: form_state
  calls :: "action list"
  inflight :: nat

definition start :: "props \<Rightarrow> page" where
  "start p = \<lparr> cells = mount p, calls = [], inflight = 0 \<rparr>"

definition dispatch :: "props \<Rightarrow> ui_event \<Rightarrow> page \<Rightarrow> page" where
  "dispatch p ev w =
     (case ev of
        FetchSettled r \<Rightarrow>
          if inflight w = 0 then w
          else \<lparr> cells = run (handle p ev (cells w)) (cells w),
                 calls = calls w @ handle p ev (cells w),
                 inflight = inflight w - 1 \<rparr>
      | _ \<Rightarrow>
          \<lparr> cells = run (handle p ev (cells w)) (cells w),
            calls = calls w @ handle p ev (cells w),
            inflight = inflight w + length (fetches (handle p ev (cells w))) \<rparr>)"

fun dispatch_all :: "props \<Rightarrow> ui_event list \<Rightarrow> page \<Rightarrow> page" where
  "dispatch_all p [] w = w"
| "dispatch_all p (ev # evs) w = dispatch_all p evs (dispatch p ev w)"

subsection \<open>The submission state of the specification\<close>

text \<open>
  The form has no cell named submission state; it is read off \<^verbatim>\<open>submitted\<close>,
  \<^verbatim>\<open>isSubmitting\<close> and \<^verbatim>\<open>error\<close>: submitted once the thank-you text is shown, submitting
  while the button is disabled, failed while the retry message of the \<^verbatim>\<open>catch\<close> block is
  shown, and editing otherwise.
\<close>

datatype submission_state = Editing | Submitting | Submitted | Failed

definition submissionState :: "form_state \<Rightarrow> submission_state" where
  "submissionState s =
     (if submitted s then Submitted
      else if isSubmitting s then Submitting
      else if error s = Some ''Failed to submit feedback. Please try again.'' then Failed
      else Editing)"

section \<open>The specification's view\<close>

text \<open>
  The validation gate as the specification words it: four rules in a fixed order, each
  with its reason; the reported reason is that of the first rule that fails.
\<close>

definition validation_rules :: "props \<Rightarrow> form_state \<Rightarrow> (bool \<times> string) list" where
  "validation_rules p s =
     [(consentMissing s, ''Please accept the consent notice to submit feedback''),
      (npsMissing p s, ''Please provide an NPS score''),
      (orderIdMissing p s, ''Please provide an order ID''),
      (questionsMissing p s, ''Please answer all required questions'')]"

definition first_failure :: "(bool \<times> string) list \<Rightarrow> string list" where
  "first_failure rules = take 1 (map snd (filter fst rules))"

text \<open>The four question types the form has an input for.\<close>

definition recognized :: "string \<Rightarrow> bool" where
  "recognized t \<longleftrightarrow> t = ''text'' \<or> t = ''rating'' \<or> t = ''multiple_choice'' \<or> t = ''yes_no''"

text \<open>A field of the payload, by name.\<close>

definition has_field :: "string \<Rightarrow> form_data \<Rightarrow> bool" where
  "has_field k fd \<longleftrightarrow> k \<in> set (map fst fd)"

text \<open>
  The response accumulator's two operations, \<open>update(questionId, value)\<close> and
  \<open>updateTopLevel(field, value)\<close>, as the calls of the form that carry them out, and the
  last value a sequence of updates writes for a question.
\<close>

datatype update =
    QuestionUpdate string js_value
  | OrderIdUpdate string
  | NpsUpdate "int option"
  | TextUpdate string
  | VoiceUpdate "blob option"
  | ModeUpdate feedback_type
  | ConsentUpdate bool

fun update_calls :: "update \<Rightarrow> action list" where
  "update_calls (QuestionUpdate k v) = handleQuestionResponse k v"
| "update_calls (OrderIdUpdate v) = [SetLocalOrderId v]"
| "update_calls (NpsUpdate v) = [SetNpsScore v]"
| "update_calls (TextUpdate v) = [SetTextFeedback v]"
| "update_calls (VoiceUpdate v) = [SetAudioBlob v]"
| "update_calls (ModeUpdate v) = [SetFeedbackType v]"
| "update_calls (ConsentUpdate v) = [SetConsent v]"

fun run_updates :: "update list \<Rightarrow> form_state \<Rightarrow> form_state" where
  "run_updates [] s = s"
| "run_updates (u # us) s = run_updates us (run (update_calls u) s)"

fun last_value :: "string \<Rightarrow> update list \<Rightarrow> js_value option" where
  "last_value k [] = None"
| "last_value k (QuestionUpdate k' v # us) =
     (case last_value k us of Some w \<Rightarrow> Some w | None \<Rightarrow> if k' = k then Some v else None)"
| "last_value k (u # us) = last_value k us"

section \<open>Concrete inputs\<close>

definition demo_settings :: campaign_settings where
  "demo_settings = \<lparr> allowVoice = True, allowText = True, requireOrderId = True \<rparr>"

definition demo_question :: campaign_question where
  "demo_question =
     \<lparr> id_q = ''q1'', type_q = ''multiple_choice'', text_q = ''Which one?'',
       required = True, options = Some [''A'', ''B''], scale_q = None \<rparr>"

definition demo_campaign :: campaign where
  "demo_campaign =
     \<lparr> id_c = ''c1'', name_c = ''Spring'', company_id = ''acme'', active = True,
       start_date = None, end_date = None, include_nps = True,
       nps_question = Some ''How likely are you to recommend us?'',
       include_additional_questions = True, questions = [demo_question],
       settings = demo_settings, created_at = ''2024-01-01'' \<rparr>"

definition demo_props :: props where
  "demo_props =
     \<lparr> orderId = ''ORD-1'', companyId = ''acme'', campaignId = Some ''c1'',
       companyName = Some ''Acme'', campaignData = Some demo_campaign \<rparr>"

definition walkin_props :: props where
  "walkin_props = demo_props\<lparr> orderId := [] \<rparr>"

text \<open>
  The session of the specification's scenario: consent given, score 9, the question
  answered B, text mode, ``Great!'' typed.
\<close>

definition filled :: form_state where
  "filled = (mount demo_props)\<lparr> consent := True, npsScore := Some 9,
      questionResponses := [(''q1'', JString ''B'')], feedbackType := Text,
      textFeedback := ''Great!'' \<rparr>"

text \<open>The same session in voice mode with nothing recorded and nothing typed.\<close>

definition voice_unrecorded :: form_state where
  "voice_unrecorded = filled\<lparr> feedbackType := Voice, textFeedback := [] \<rparr>"

definition interleaved :: "update list" where
  "interleaved =
     [QuestionUpdate ''q1'' (JString ''A''), NpsUpdate (Some 7),
      QuestionUpdate ''q2'' (JBool True), ConsentUpdate True,
      QuestionUpdate ''q1'' (JString ''B'')]"

text \<open>
  A campaign with a required question of a type the form has no input for, and a user's
  attempt to fill in and submit.
\<close>

definition unrendered_question :: campaign_question where
  "unrendered_question =
     \<lparr> id_q = ''q0'', type_q = ''nps'', text_q = ''How likely?'',
       required = True, options = None, scale_q = None \<rparr>"

definition unrendered_props :: props where
  "unrendered_props =
     demo_props\<lparr> campaignData :=
       Some (demo_campaign\<lparr> questions := [unrendered_question, demo_question] \<rparr>) \<rparr>"

definition attempt :: "ui_event list" where
  "attempt =
     [ConsentChange True, NpsClick 8, QuestionChange ''q1'' (JString ''B''),
      QuestionChange ''q0'' (JString ''x''), TextTabClick, TextFeedbackChange ''Great!'',
      SubmitClick]"

section \<open>Helper lemmas\<close>

lemmas demo_defs = demo_props_def demo_campaign_def demo_settings_def demo_question_def

lemmas rule_defs = consentMissing_def npsMissing_def orderIdMissing_def questionsMissing_def

lemma fetches_append: "fetches (as @ bs) = fetches as @ fetches bs"
  by (induction as rule: fetches.induct) simp_all

lemma run_append: "run (as @ bs) s = run bs (run as s)"
  by (induction as arbitrary: s) simp_all

lemma has_field_append: "has_field k (xs @ ys) \<longleftrightarrow> has_field k xs \<or> has_field k ys"
  by (auto simp: has_field_def)

lemma has_field_simps:
  "has_field k [] = False"
  "has_field k ((k', v) # fd) \<longleftrightarrow> k = k' \<or> has_field k fd"
  by (auto simp: has_field_def)

lemma showOrderInput_perform: "showOrderInput (perform a s) = showOrderInput s"
  by (cases a) simp_all

lemma showOrderInput_run: "showOrderInput (run as s) = showOrderInput s"
  by (induction as arbitrary: s) (simp_all add: showOrderInput_perform)

lemma handleSubmit_passes:
  "reasons (handleSubmit p s) = [] \<Longrightarrow>
     handleSubmit p s = [SetIsSubmitting True, SetError None]
           @ (if rendersAudioRecorder p s then [StopRecording] else [])
           @ [Fetch (formData p s)]"
  by (simp add: handleSubmit_def split: if_splits)

lemma map_of_run_updates:
  "map_of (questionResponses (run_updates us s)) k =
     (case last_value k us of Some v \<Rightarrow> Some v | None \<Rightarrow> map_of (questionResponses s) k)"
proof (induction us arbitrary: s)
  case Nil
  then show ?case by simp
next
  case (Cons u us)
  have "map_of (questionResponses (run_updates (u # us) s)) k =
      (case last_value k us of
         Some v \<Rightarrow> Some v
       | None \<Rightarrow> map_of (questionResponses (run (update_calls u) s)) k)"
    using Cons.IH [of "run (update_calls u) s"] by simp
  then show ?case
    by (cases u)
       (simp_all add: handleQuestionResponse_def update_conv' split: option.splits)
qed

lemma distinct_run_updates:
  "distinct (map fst (questionResponses s)) \<Longrightarrow>
     distinct (map fst (questionResponses (run_updates us s)))"
proof (induction us arbitrary: s)
  case Nil
  then show ?case by simp
next
  case (Cons u us)
  have "distinct (map fst (questionResponses (run (update_calls u) s)))"
    using Cons.prems
    by (cases u) (simp_all add: handleQuestionResponse_def distinct_update)
  then show ?case
    using Cons.IH by simp
qed

lemma question_inputs_unrecognized:
  "\<not> recognized (type_q q) \<Longrightarrow> question_inputs rs q = []"
  by (simp add: question_inputs_def recognized_def)

lemma has_input_recognized:
  assumes "campaignData p = Some c" and "has_input p s k"
  shows "\<exists>q \<in> set (questions c). id_q q = k \<and> recognized (type_q q)"
  using assms
  by (auto simp: has_input_def render_questions_def list_ex_iff question_block_def
      question_inputs_def recognized_def split: if_splits question_input.splits)

lemma questionsMissing_unanswered:
  assumes "campaignData p = Some c" and "include_additional_questions c"
    and "q \<in> set (questions c)" and "required q"
    and "map_of (questionResponses s) (id_q q) = None"
  shows "questionsMissing p s"
  using assms
  by (auto simp: questionsMissing_def campaign_flag_def missingRequired_def list_ex_iff
      response_of_def)

lemma handleSubmit_blocked:
  "questionsMissing p s \<Longrightarrow> \<exists>m. handleSubmit p s = [SetError (Some m)]"
  by (simp add: handleSubmit_def)

lemma blocked_dispatch:
  assumes c: "campaignData p = Some c" "include_additional_questions c"
      "q \<in> set (questions c)" "required q"
    and u: "\<forall>q' \<in> set (questions c). id_q q' = id_q q \<longrightarrow> \<not> recognized (type_q q')"
    and i: "map_of (questionResponses (cells w)) (id_q q) = None" "fetches (calls w) = []"
      "inflight w = 0"
  shows "map_of (questionResponses (cells (dispatch p ev w))) (id_q q) = None
    \<and> fetches (calls (dispatch p ev w)) = [] \<and> inflight (dispatch p ev w) = 0"
proof (cases ev)
  case (QuestionChange k v)
  have "k \<noteq> id_q q" if "has_input p (cells w) k"
    using has_input_recognized [OF c(1) that] u by auto
  then have "has_input p (cells w) k \<longrightarrow> id_q q \<noteq> k"
    by auto
  then show ?thesis
    using i QuestionChange
    by (auto simp add: dispatch_def fetches_append handleQuestionResponse_def update_conv')
next
  case SubmitClick
  obtain m where "handleSubmit p (cells w) = [SetError (Some m)]"
    using handleSubmit_blocked [OF questionsMissing_unanswered [OF c i(1)]] by blast
  then show ?thesis
    using i SubmitClick by (simp add: dispatch_def fetches_append)
qed (use i in \<open>simp_all add: dispatch_def fetches_append\<close>)

lemma blocked_dispatch_all:
  assumes c: "campaignData p = Some c" "include_additional_questions c"
      "q \<in> set (questions c)" "required q"
    and u: "\<forall>q' \<in> set (questions c). id_q q' = id_q q \<longrightarrow> \<not> recognized (type_q q')"
  shows "map_of (questionResponses (cells w)) (id_q q) = None \<Longrightarrow> fetches (calls w) = []
    \<Longrightarrow> inflight w = 0 \<Longrightarrow> fetches (calls (dispatch_all p evs w)) = []"
proof (induction evs arbitrary: w)
  case Nil
  then show ?case by simp
next
  case (Cons ev evs)
  from blocked_dispatch [OF c u Cons.prems, of ev] show ?case
    by (simp add: Cons.IH)
qed


section \<open>Initial feedback mode\<close>

text \<open>
  C10. When the form is created its feedback mode is voice exactly when there is a
  campaign whose settings allow voice, and text in every other case; the voice/text
  question component starts in voice exactly when its question allows voice, and in text
  otherwise.
\<close>

theorem initial_feedback_mode:
  "(feedbackType (mount p) = Voice
      \<longleftrightarrow> (\<exists>c. campaignData p = Some c \<and> allowVoice (settings c)))
   \<and> (feedbackType (mount p) = Text
      \<longleftrightarrow> \<not> (\<exists>c. campaignData p = Some c \<and> allowVoice (settings c)))
   \<and> (responseType (vt_mount q) = Voice \<longleftrightarrow> vt_allowVoice q)
   \<and> (responseType (vt_mount q) = Text \<longleftrightarrow> \<not> vt_allowVoice q)"
  by (cases "campaignData p") (simp_all add: mount_def vt_mount_def campaign_flag_def)

theorem initial_feedback_mode_witness:
  "feedbackType (mount demo_props) = Voice
   \<and> feedbackType (mount (demo_props\<lparr>campaignData := None\<rparr>)) = Text
   \<and> responseType (vt_mount \<lparr> vt_allowVoice = False, vt_allowText = True \<rparr>) = Text"
  using initial_feedback_mode [of demo_props "\<lparr> vt_allowVoice = False, vt_allowText = True \<rparr>"]
    initial_feedback_mode [of "demo_props\<lparr>campaignData := None\<rparr>"]
  by (simp add: demo_props_def demo_campaign_def demo_settings_def)

section \<open>Validation gate\<close>

text \<open>
  C1. The checks run in the fixed order consent, NPS score, order ID, required questions
  and stop at the first that fails: the reasons reported by a submit are exactly the
  reason of the first failing rule in that order, so there is at most one; when there is
  one, reporting it is all the handler does; and a session that fails both the consent
  rule and the required-questions rule reports the consent reason.
\<close>

theorem validation_order:
  "reasons (handleSubmit p s) = first_failure (validation_rules p s)
   \<and> length (reasons (handleSubmit p s)) \<le> 1
   \<and> (reasons (handleSubmit p s) \<noteq> [] \<longrightarrow>
        handleSubmit p s = [SetError (Some (hd (reasons (handleSubmit p s))))])
   \<and> (consentMissing s \<and> questionsMissing p s \<longrightarrow>
        reasons (handleSubmit p s) = [''Please accept the consent notice to submit feedback''])"
  by (simp add: handleSubmit_def first_failure_def validation_rules_def)

theorem validation_order_witness:
  "consentMissing (mount demo_props) \<and> questionsMissing demo_props (mount demo_props)
   \<and> reasons (handleSubmit demo_props (mount demo_props))
       = [''Please accept the consent notice to submit feedback'']"
proof -
  have h: "consentMissing (mount demo_props) \<and> questionsMissing demo_props (mount demo_props)"
    by (simp add: rule_defs mount_def demo_defs campaign_flag_def missingRequired_def
        response_of_def)
  with validation_order [of demo_props "mount demo_props"] show ?thesis
    by blast
qed

text \<open>
  C2, as stated, fails: with NPS included and no score chosen, a session without consent
  reports the consent reason, not the NPS reason.
\<close>

theorem nps_required_counterexample:
  "campaign_flag include_nps demo_props \<and> npsScore (mount demo_props) = None
   \<and> reasons (handleSubmit demo_props (mount demo_props))
       \<noteq> [''Please provide an NPS score'']"
  by (simp add: handleSubmit_def rule_defs mount_def demo_defs campaign_flag_def)

text \<open>
  C2, amended. For every campaign with NPS included, a submit with consent given and no
  NPS score does nothing but report the NPS reason: no request is made, on the page the
  requests made and in flight stay as they were, and a form that was neither submitting
  nor submitted is in the editing state afterwards.
\<close>

theorem nps_required:
  assumes "campaignData p = Some c" and "include_nps c" and "npsScore s = None"
    and "consent s"
  shows "handleSubmit p s = [SetError (Some ''Please provide an NPS score'')]
    \<and> fetches (handleSubmit p s) = []
    \<and> (cells w = s \<longrightarrow> fetches (calls (dispatch p SubmitClick w)) = fetches (calls w)
          \<and> inflight (dispatch p SubmitClick w) = inflight w)
    \<and> (\<not> isSubmitting s \<and> \<not> submitted s \<longrightarrow>
          submissionState (run (handleSubmit p s) s) = Editing)"
proof -
  have hs: "handleSubmit p s = [SetError (Some ''Please provide an NPS score'')]"
    using assms by (simp add: handleSubmit_def rule_defs campaign_flag_def nps_value_def)
  have pg: "fetches (calls (dispatch p SubmitClick w)) = fetches (calls w)
      \<and> inflight (dispatch p SubmitClick w) = inflight w" if "cells w = s"
    using that hs by (simp add: dispatch_def fetches_append)
  show ?thesis
    using hs pg by (simp add: submissionState_def)
qed

theorem nps_required_witness:
  "campaignData demo_props = Some demo_campaign \<and> include_nps demo_campaign
   \<and> npsScore ((mount demo_props)\<lparr>consent := True\<rparr>) = None
   \<and> consent ((mount demo_props)\<lparr>consent := True\<rparr>)
   \<and> handleSubmit demo_props ((mount demo_props)\<lparr>consent := True\<rparr>)
       = [SetError (Some ''Please provide an NPS score'')]"
proof -
  have h: "campaignData demo_props = Some demo_campaign" "include_nps demo_campaign"
    "npsScore ((mount demo_props)\<lparr>consent := True\<rparr>) = None"
    "consent ((mount demo_props)\<lparr>consent := True\<rparr>)"
    by (simp_all add: mount_def demo_props_def demo_campaign_def)
  from nps_required [OF h] h show ?thesis
    by blast
qed

section \<open>Submission payload\<close>

text \<open>
  C3, as stated, fails: a session that passes validation in voice mode with nothing
  recorded sends a payload with neither an audio field nor a textFeedback field.
\<close>

theorem payload_counterexample:
  "reasons (handleSubmit demo_props voice_unrecorded) = []
   \<and> fetches (handleSubmit demo_props voice_unrecorded) = [formData demo_props voice_unrecorded]
   \<and> \<not> has_field ''audio'' (formData demo_props voice_unrecorded)
   \<and> \<not> has_field ''textFeedback'' (formData demo_props voice_unrecorded)"
  by (simp add: handleSubmit_def rule_defs voice_unrecorded_def filled_def mount_def demo_defs
      campaign_flag_def nps_value_def missingRequired_def response_of_def formData_def
      has_field_append has_field_simps rendersAudioRecorder_def)

text \<open>
  C3, amended. A session that passes validation makes one request, with the payload of
  its state. The payload has the audio field exactly when the mode is voice and a blob is
  present, the textFeedback field exactly when the mode is text and the text is
  non-empty, never both (possibly neither), and the questionResponses field exactly when
  the responses are non-empty.
\<close>

theorem payload_fields:
  "(reasons (handleSubmit p s) = [] \<longrightarrow> fetches (handleSubmit p s) = [formData p s])
   \<and> (has_field ''audio'' (formData p s) \<longleftrightarrow> feedbackType s = Voice \<and> audioBlob s \<noteq> None)
   \<and> (has_field ''textFeedback'' (formData p s)
        \<longleftrightarrow> feedbackType s = Text \<and> textFeedback s \<noteq> [])
   \<and> \<not> (has_field ''audio'' (formData p s) \<and> has_field ''textFeedback'' (formData p s))
   \<and> (has_field ''questionResponses'' (formData p s) \<longleftrightarrow> questionResponses s \<noteq> [])"
proof -
  have a: "reasons (handleSubmit p s) = [] \<longrightarrow> fetches (handleSubmit p s) = [formData p s]"
    by (simp add: handleSubmit_def)
  have b: "has_field ''audio'' (formData p s) \<longleftrightarrow> feedbackType s = Voice \<and> audioBlob s \<noteq> None"
    by (cases "feedbackType s"; cases "audioBlob s")
       (simp_all add: formData_def has_field_append has_field_simps
          split: option.splits)
  have c: "has_field ''textFeedback'' (formData p s)
        \<longleftrightarrow> feedbackType s = Text \<and> textFeedback s \<noteq> []"
    by (cases "feedbackType s"; cases "audioBlob s")
       (simp_all add: formData_def has_field_append has_field_simps
          split: option.splits)
  have d: "has_field ''questionResponses'' (formData p s) \<longleftrightarrow> questionResponses s \<noteq> []"
    by (cases "feedbackType s"; cases "audioBlob s")
       (simp_all add: formData_def has_field_append has_field_simps
          split: option.splits)
  from a b c d show ?thesis by auto
qed

theorem payload_fields_witness:
  "reasons (handleSubmit demo_props filled) = []
   \<and> fetches (handleSubmit demo_props filled) = 
      [[(''textFeedback'', TextPart ''Great!''),
    (''orderId'', TextPart ''ORD-1''), (''companyId'', TextPart ''acme''),
    (''campaignId'', TextPart ''c1''), (''npsScore'', TextPart ''9''),
    (''questionResponses'', JsonPart [(''q1'', JString ''B'')])]]
   \<and> \<not> has_field ''audio'' (formData demo_props filled)"
proof -
  have r: "reasons (handleSubmit demo_props filled) = []"
    by (simp add: handleSubmit_def rule_defs filled_def mount_def demo_defs
      campaign_flag_def nps_value_def missingRequired_def response_of_def rendersAudioRecorder_def)
  have nine: "toString 9 = ''9''"
    by code_simp
  have f: "formData demo_props filled = [(''textFeedback'', TextPart ''Great!''),
    (''orderId'', TextPart ''ORD-1''), (''companyId'', TextPart ''acme''),
    (''campaignId'', TextPart ''c1''), (''npsScore'', TextPart ''9''),
    (''questionResponses'', JsonPart [(''q1'', JString ''B'')])]"
    by (simp add: formData_def filled_def mount_def demo_defs campaign_flag_def nine)
  have m: "feedbackType filled = Text"
    by (simp add: filled_def)
  from payload_fields [of demo_props filled] r f m show ?thesis
    by simp
qed

section \<open>Order ID\<close>

text \<open>
  C8, as stated, fails: with the order ID required, the field editable and empty, a
  session without consent reports the consent reason, not the order-ID reason.
\<close>

theorem order_id_counterexample:
  "campaign_flag (\<lambda>c. requireOrderId (settings c)) walkin_props
   \<and> showOrderInput (mount walkin_props) \<and> localOrderId (mount walkin_props) = []
   \<and> reasons (handleSubmit walkin_props (mount walkin_props)) \<noteq> [''Please provide an order ID'']"
  by (simp add: handleSubmit_def rule_defs mount_def walkin_props_def demo_defs campaign_flag_def)

text \<open>
  C8, amended. The order-id field is editable exactly when no order id came with the
  page, and no call of the form changes that. When consent is given and the NPS check
  passes, the settings require an order ID, the field is editable and the order id is
  empty, a submit does nothing but report the order-ID reason. When the settings do not
  require it or the field is not editable, an empty order id never yields the order-ID
  reason, and the reasons reported are those of any other order id.
\<close>

theorem order_id_required:
  "(showOrderInput (mount p) \<longleftrightarrow> orderId p = [])
   \<and> showOrderInput (run as s) = showOrderInput s
   \<and> (consent s \<and> \<not> npsMissing p s
        \<and> campaign_flag (\<lambda>c. requireOrderId (settings c)) p \<and> showOrderInput s
        \<and> localOrderId s = [] \<longrightarrow>
        handleSubmit p s = [SetError (Some ''Please provide an order ID'')])
   \<and> (\<not> (campaign_flag (\<lambda>c. requireOrderId (settings c)) p \<and> showOrderInput s) \<longrightarrow>
        ''Please provide an order ID'' \<notin> set (reasons (handleSubmit p (s\<lparr>localOrderId := []\<rparr>)))
        \<and> reasons (handleSubmit p (s\<lparr>localOrderId := []\<rparr>))
            = reasons (handleSubmit p (s\<lparr>localOrderId := v\<rparr>)))"
proof -
  have a: "showOrderInput (mount p) \<longleftrightarrow> orderId p = []"
    by (simp add: mount_def)
  have b: "handleSubmit p s = [SetError (Some ''Please provide an order ID'')]"
    if "consent s \<and> \<not> npsMissing p s
        \<and> campaign_flag (\<lambda>c. requireOrderId (settings c)) p \<and> showOrderInput s
        \<and> localOrderId s = []"
    using that by (simp add: handleSubmit_def consentMissing_def orderIdMissing_def)
  have c: "''Please provide an order ID'' \<notin> set (reasons (handleSubmit p (s\<lparr>localOrderId := []\<rparr>)))
        \<and> reasons (handleSubmit p (s\<lparr>localOrderId := []\<rparr>))
            = reasons (handleSubmit p (s\<lparr>localOrderId := v\<rparr>))"
    if "\<not> (campaign_flag (\<lambda>c. requireOrderId (settings c)) p \<and> showOrderInput s)"
    using that by (auto simp add: handleSubmit_def rule_defs)
  from a b c showOrderInput_run [of as s] show ?thesis
    by blast
qed

theorem order_id_required_witness:
  "consent ((mount walkin_props)\<lparr>consent := True, npsScore := Some 9\<rparr>)
   \<and> \<not> npsMissing walkin_props ((mount walkin_props)\<lparr>consent := True, npsScore := Some 9\<rparr>)
   \<and> campaign_flag (\<lambda>c. requireOrderId (settings c)) walkin_props
   \<and> showOrderInput ((mount walkin_props)\<lparr>consent := True, npsScore := Some 9\<rparr>)
   \<and> localOrderId ((mount walkin_props)\<lparr>consent := True, npsScore := Some 9\<rparr>) = []
   \<and> handleSubmit walkin_props ((mount walkin_props)\<lparr>consent := True, npsScore := Some 9\<rparr>)
       = [SetError (Some ''Please provide an order ID'')]
   \<and> \<not> (campaign_flag (\<lambda>c. requireOrderId (settings c)) demo_props \<and> showOrderInput filled)
   \<and> reasons (handleSubmit demo_props (filled\<lparr>localOrderId := []\<rparr>)) = []"
proof -
  let ?s = "(mount walkin_props)\<lparr>consent := True, npsScore := Some 9\<rparr>"
  have h: "consent ?s \<and> \<not> npsMissing walkin_props ?s
     \<and> campaign_flag (\<lambda>c. requireOrderId (settings c)) walkin_props
     \<and> showOrderInput ?s \<and> localOrderId ?s = []"
    by (simp add: rule_defs mount_def walkin_props_def demo_defs campaign_flag_def nps_value_def)
  have g: "\<not> (campaign_flag (\<lambda>c. requireOrderId (settings c)) demo_props \<and> showOrderInput filled)"
    by (simp add: filled_def mount_def demo_defs)
  have r: "reasons (handleSubmit demo_props (filled\<lparr>localOrderId := ''ORD-1''\<rparr>)) = []"
    by (simp add: handleSubmit_def rule_defs filled_def mount_def demo_defs
      campaign_flag_def nps_value_def missingRequired_def response_of_def)
  from order_id_required [of walkin_props "[]" ?s] h
  have 1: "handleSubmit walkin_props ?s = [SetError (Some ''Please provide an order ID'')]"
    by blast
  from order_id_required [of demo_props "[]" filled "''ORD-1''"] g r
  have 2: "reasons (handleSubmit demo_props (filled\<lparr>localOrderId := []\<rparr>)) = []"
    by simp
  from h g 1 2 show ?thesis by blast
qed

section \<open>Submitting twice\<close>


section \<open>Failed submission\<close>

text \<open>
  C6. When the request of a valid session settles with a response that is not ok, or is
  rejected in transport, the handler makes no further request, reports the generic retry
  message and clears the submitting flag, whatever the state cells hold by then, and
  leaves order id, NPS score, text, voice blob, question responses and consent as they
  are. With no edit in between, the state is the one before the submit with only the
  error message changed, the form is in the failed state, and a new submit makes the
  same calls as the first.
\<close>

theorem failed_submission:
  assumes "r \<noteq> Ok" and "reasons (handleSubmit p s) = []"
    and "\<not> isSubmitting s" and "\<not> submitted s"
  shows "fetches (handleSubmit p s) = [formData p s]
    \<and> fetches (handleSubmit_settled r) = []
    \<and> run (handleSubmit_settled r) s' =
         s'\<lparr> error := Some ''Failed to submit feedback. Please try again.'', isSubmitting := False \<rparr>
    \<and> localOrderId (run (handleSubmit_settled r) s') = localOrderId s'
    \<and> npsScore (run (handleSubmit_settled r) s') = npsScore s'
    \<and> textFeedback (run (handleSubmit_settled r) s') = textFeedback s'
    \<and> audioBlob (run (handleSubmit_settled r) s') = audioBlob s'
    \<and> questionResponses (run (handleSubmit_settled r) s') = questionResponses s'
    \<and> consent (run (handleSubmit_settled r) s') = consent s'
    \<and> submissionState (run (handleSubmit p s) s) = Submitting
    \<and> run (handleSubmit_settled r) (run (handleSubmit p s) s) =
         s\<lparr> error := Some ''Failed to submit feedback. Please try again.'' \<rparr>
    \<and> submissionState (run (handleSubmit_settled r) (run (handleSubmit p s) s)) = Failed
    \<and> handleSubmit p (run (handleSubmit_settled r) (run (handleSubmit p s) s)) = handleSubmit p s"
proof -
  let ?f = "run (handleSubmit_settled r) (run (handleSubmit p s) s)"
  have st: "run (handleSubmit_settled r) s' =
         s'\<lparr> error := Some ''Failed to submit feedback. Please try again.'', isSubmitting := False \<rparr>"
    for s'
    using assms(1) by (cases r) (simp_all add: handleSubmit_settled_def)
  have nf: "fetches (handleSubmit_settled r) = []"
    by (cases r) (simp_all add: handleSubmit_settled_def)
  have s1: "run (handleSubmit p s) s = s\<lparr> isSubmitting := True, error := None \<rparr>"
    using handleSubmit_passes [OF assms(2)] by (simp add: run_append)
  have f: "?f = s\<lparr> error := Some ''Failed to submit feedback. Please try again.'' \<rparr>"
    using assms(3) by (simp add: st s1)
  have again: "handleSubmit p ?f = handleSubmit p s"
    unfolding f by (simp add: handleSubmit_def rule_defs formData_def rendersAudioRecorder_def)
  have fs: "fetches (handleSubmit p s) = [formData p s]"
    using handleSubmit_passes [OF assms(2)] by (simp add: fetches_append)
  show ?thesis
    using assms(3,4) st nf s1 f again fs by (simp add: submissionState_def)
qed

theorem failed_submission_witness:
  "NotOk \<noteq> Ok \<and> reasons (handleSubmit demo_props filled) = []
   \<and> \<not> isSubmitting filled \<and> \<not> submitted filled
   \<and> run (handleSubmit_settled NotOk) (run (handleSubmit demo_props filled) filled) =
         filled\<lparr> error := Some ''Failed to submit feedback. Please try again.'' \<rparr>
   \<and> submissionState (run (handleSubmit_settled NotOk) (run (handleSubmit demo_props filled) filled))
       = Failed"
proof -
  have n: "NotOk \<noteq> Ok" by simp
  have r: "reasons (handleSubmit demo_props filled) = []"
    by (simp add: handleSubmit_def rule_defs filled_def mount_def demo_defs
      campaign_flag_def nps_value_def missingRequired_def response_of_def)
  have i: "\<not> isSubmitting filled" "\<not> submitted filled"
    by (simp_all add: filled_def mount_def)
  from failed_submission [OF n r i] n r i show ?thesis
    by blast
qed

section \<open>Response accumulator\<close>

text \<open>
  C7. A question update replaces the value under that question's id and nothing else:
  every other key reads as before and every other state cell is unchanged; an update of a
  top-level field leaves the responses unchanged. Hence after any sequence of question
  updates and top-level updates, in any interleaving, each question id holds the last
  value written for it, or what it held at the start when none was written, and the keys
  stay unique.
\<close>

theorem question_update_frame:
  "map_of (questionResponses (run (handleQuestionResponse k v) s))
      = (map_of (questionResponses s))(k \<mapsto> v)
   \<and> (\<forall>k'. k' \<noteq> k \<longrightarrow>
        response_of (questionResponses (run (handleQuestionResponse k v) s)) k'
          = response_of (questionResponses s) k')
   \<and> run (handleQuestionResponse k v) s
        = s\<lparr> questionResponses := AList.update k v (questionResponses s) \<rparr>
   \<and> (\<forall>u. (\<forall>k' v'. u \<noteq> QuestionUpdate k' v') \<longrightarrow>
        questionResponses (run (update_calls u) s) = questionResponses s)
   \<and> map_of (questionResponses (run_updates us s)) k =
       (case last_value k us of Some w \<Rightarrow> Some w | None \<Rightarrow> map_of (questionResponses s) k)
   \<and> (distinct (map fst (questionResponses s)) \<longrightarrow>
        distinct (map fst (questionResponses (run_updates us s))))"
proof -
  have a: "map_of (questionResponses (run (handleQuestionResponse k v) s))
      = (map_of (questionResponses s))(k \<mapsto> v)"
    by (simp add: handleQuestionResponse_def update_conv')
  have b: "response_of (questionResponses (run (handleQuestionResponse k v) s)) k'
          = response_of (questionResponses s) k'" if "k' \<noteq> k" for k'
    using that by (simp add: response_of_def a)
  have c: "run (handleQuestionResponse k v) s
        = s\<lparr> questionResponses := AList.update k v (questionResponses s) \<rparr>"
    by (simp add: handleQuestionResponse_def)
  have d: "questionResponses (run (update_calls u) s) = questionResponses s"
    if "\<forall>k' v'. u \<noteq> QuestionUpdate k' v'" for u
    using that by (cases u) simp_all
  from a b c d map_of_run_updates [of us s k] distinct_run_updates [of s us]
  show ?thesis by blast
qed


theorem question_update_frame_witness:
  "distinct (map fst (questionResponses (mount demo_props)))
   \<and> distinct (map fst (questionResponses (run_updates interleaved (mount demo_props))))
   \<and> map_of (questionResponses (run_updates interleaved (mount demo_props))) ''q1''
       = Some (JString ''B'')
   \<and> ''q2'' \<noteq> ''q1''
   \<and> response_of (questionResponses (run (handleQuestionResponse ''q1'' JNull) filled)) ''q2''
       = response_of (questionResponses filled) ''q2''
   \<and> questionResponses (run (update_calls (NpsUpdate None)) filled) = questionResponses filled"
proof -
  have d: "distinct (map fst (questionResponses (mount demo_props)))"
    by (simp add: mount_def)
  have l: "last_value ''q1'' interleaved = Some (JString ''B'')"
    by (simp add: interleaved_def)
  have n: "\<forall>k' v'. NpsUpdate None \<noteq> QuestionUpdate k' v'"
    by simp
  note t = question_update_frame [of "''q1''" JNull filled "[]"]
  note u = question_update_frame [of "''q1''" JNull "mount demo_props" interleaved]
  have 0: "''q2'' \<noteq> ''q1''"
    by simp
  have 1: "response_of (questionResponses (run (handleQuestionResponse ''q1'' JNull) filled)) ''q2''
       = response_of (questionResponses filled) ''q2''"
    by (rule t [THEN conjunct2, THEN conjunct1, THEN spec, THEN mp, OF 0])
  have 2: "questionResponses (run (update_calls (NpsUpdate None)) filled)
      = questionResponses filled"
    by (rule t [THEN conjunct2, THEN conjunct2, THEN conjunct2, THEN conjunct1, THEN spec,
          THEN mp, OF n])
  have 3: "distinct (map fst (questionResponses (run_updates interleaved (mount demo_props))))"
    by (rule u [THEN conjunct2, THEN conjunct2, THEN conjunct2, THEN conjunct2,
          THEN conjunct2, THEN mp, OF d])
  have 4: "map_of (questionResponses (run_updates interleaved (mount demo_props))) ''q1''
       = Some (JString ''B'')"
    using u [THEN conjunct2, THEN conjunct2, THEN conjunct2, THEN conjunct2, THEN conjunct1]
    by (simp only: l option.case)
  show ?thesis
    by (intro conjI d 0 1 2 3 4)
qed

section \<open>Questions of an unrecognized type\<close>

text \<open>
  C9 says that a question whose type is not one of text, rating, multiple_choice, or
  yes_no gets no input and that the rest of the form still renders and remains
  submittable. The form does not keep the last part. For a campaign whose first question
  is required and of type \<^verbatim>\<open>nps\<close> (a declared question type that the form has no input
  for): the question's block is rendered with its label and required mark and no input,
  the other question is rendered with its input; the attempt to answer the question is
  not an event of the page; the submit of the otherwise complete session is refused with
  the required-questions reason; and no sequence of events of the page ever makes a
  request.
\<close>

theorem unrendered_required_blocks_submit:
  "\<not> recognized (type_q unrendered_question)
   \<and> question_inputs [] unrendered_question = []
   \<and> render_questions unrendered_props (mount unrendered_props)
       = [(''How likely?'', True, []),
          (''Which one?'', True, [MultipleChoiceQuestion demo_question JUndefined])]
   \<and> fetches (calls (dispatch_all unrendered_props attempt (start unrendered_props))) = []
   \<and> error (cells (dispatch_all unrendered_props attempt (start unrendered_props)))
       = Some ''Please answer all required questions''
   \<and> questionResponses (cells (dispatch_all unrendered_props attempt (start unrendered_props)))
       = [(''q1'', JString ''B'')]
   \<and> (\<forall>evs. fetches (calls (dispatch_all unrendered_props evs (start unrendered_props))) = [])"
proof -
  have n: "\<not> recognized (type_q unrendered_question)"
    by (simp add: recognized_def unrendered_question_def)
  have a: "fetches (calls (dispatch_all unrendered_props attempt (start unrendered_props))) = []
   \<and> error (cells (dispatch_all unrendered_props attempt (start unrendered_props)))
       = Some ''Please answer all required questions''
   \<and> questionResponses (cells (dispatch_all unrendered_props attempt (start unrendered_props)))
       = [(''q1'', JString ''B'')]"
    by (simp add: unrendered_question_def unrendered_props_def attempt_def
      start_def dispatch_def mount_def demo_defs campaign_flag_def has_input_def
      render_questions_def question_block_def question_inputs_def rendersNps_def
      rendersTabs_def rendersTextarea_def rendersAudioRecorder_def handleQuestionResponse_def
      handleSubmit_def rule_defs nps_value_def missingRequired_def response_of_def)
  have c: "campaignData unrendered_props
        = Some (demo_campaign\<lparr> questions := [unrendered_question, demo_question] \<rparr>)"
      "include_additional_questions
         (demo_campaign\<lparr> questions := [unrendered_question, demo_question] \<rparr>)"
      "unrendered_question
         \<in> set (questions (demo_campaign\<lparr> questions := [unrendered_question, demo_question] \<rparr>))"
      "required unrendered_question"
    by (simp_all add: unrendered_props_def unrendered_question_def demo_campaign_def)
  have u: "\<forall>q' \<in> set (questions (demo_campaign\<lparr> questions := [unrendered_question, demo_question] \<rparr>)).
      id_q q' = id_q unrendered_question \<longrightarrow> \<not> recognized (type_q q')"
    using n by (simp add: unrendered_question_def demo_question_def)
  have i: "map_of (questionResponses (cells (start unrendered_props))) (id_q unrendered_question) = None"
      "fetches (calls (start unrendered_props)) = []" "inflight (start unrendered_props) = 0"
    by (simp_all add: start_def mount_def)
  have b: "fetches (calls (dispatch_all unrendered_props evs (start unrendered_props))) = []" for evs
    by (rule blocked_dispatch_all [OF c u i])
  have q: "question_inputs [] unrendered_question = []"
    using n by (rule question_inputs_unrecognized)
  have d: "render_questions unrendered_props (mount unrendered_props)
       = [(''How likely?'', True, []),
          (''Which one?'', True, [MultipleChoiceQuestion demo_question JUndefined])]"
    by (simp add: render_questions_def unrendered_props_def demo_campaign_def
        question_block_def question_inputs_def unrendered_question_def demo_question_def
        mount_def response_of_def)
  have all: "\<forall>evs.
      fetches (calls (dispatch_all unrendered_props evs (start unrendered_props))) = []"
    by (simp add: b)
  show ?thesis
    by (intro conjI n q d a [THEN conjunct1] a [THEN conjunct2, THEN conjunct1]
        a [THEN conjunct2, THEN conjunct2] all)
qed

section \<open>Channel switch\<close>

text \<open>
  What the tab buttons do, in the form and in the voice/text question component: they set
  the mode. They make no call to the recorder and leave the recorded blob and the
  recording flag as they are; in the form the recorder is no longer rendered afterwards.
  What the recorder does with a capture in progress when it is no longer rendered is its
  own business.
\<close>

lemma channel_switch_calls:
  "handle p TextTabClick s
     = (if \<not> submitted s \<and> rendersTabs p then [SetFeedbackType Text] else [])
   \<and> StopRecording \<notin> set (handle p TextTabClick s)
   \<and> audioBlob (run (handle p TextTabClick s) s) = audioBlob s
   \<and> (\<not> submitted s \<and> rendersTabs p \<longrightarrow>
        \<not> rendersAudioRecorder p (run (handle p TextTabClick s) s))
   \<and> vt_audioBlob (vt_tab_click q t v) = vt_audioBlob v
   \<and> isRecording (vt_tab_click q t v) = isRecording v"
  by (simp add: rendersAudioRecorder_def vt_tab_click_def)

end
